theory Spec2Isabelle
  imports Complex_Main
begin

section \<open>Errors and results\<close>

text \<open>
  The module under study is \<^verbatim>\<open>mmseg/models/backbones/mix_transformer_gt_omega.py\<close>.
  Every exception the Python code (or a library primitive it calls) can raise
  is a value; a computation returns \<open>Inl e\<close> when it raises and \<open>Inr v\<close> when it
  returns \<open>v\<close>.
\<close>

datatype error =
    TypeError | ValueError | RuntimeError | ZeroDivisionError
  | IndexError | AttributeError | EinopsError | SyntaxError

definition and_then :: "error + 'a \<Rightarrow> ('a \<Rightarrow> error + 'b) \<Rightarrow> error + 'b" where
  "and_then m f = (case m of Inl e \<Rightarrow> Inl e | Inr v \<Rightarrow> f v)"

section \<open>Tensors\<close>

text \<open>
  A tensor is its shape together with its elements in row-major order, which
  is what a contiguous torch tensor holds.  Element values are kept abstract
  (a type variable); no floating-point arithmetic is interpreted.
\<close>

record 'a tensor =
  shape :: "nat list"
  data :: "'a list"

definition well_formed :: "'a tensor \<Rightarrow> bool" where
  "well_formed t \<longleftrightarrow> length (data t) = prod_list (shape t)"

text \<open>Row-major offset of a multi-index, and all multi-indices of a shape in row-major order.\<close>

fun flat_index :: "nat list \<Rightarrow> nat list \<Rightarrow> nat" where
  "flat_index (n # ns) (i # is) = i * prod_list ns + flat_index ns is"
| "flat_index _ _ = 0"

fun indices :: "nat list \<Rightarrow> nat list list" where
  "indices [] = [[]]"
| "indices (n # ns) = concat (map (\<lambda>i. map ((#) i) (indices ns)) [0..<n])"

text \<open>
  \<^verbatim>\<open>Tensor.view(*sizes)\<close>: torch's \<^verbatim>\<open>infer_size\<close>.  At most one entry may be \<open>-1\<close>;
  it is inferred from the element count, which is refused as ambiguous when the
  product of the other entries is zero.
\<close>

definition infer_size :: "int list \<Rightarrow> nat \<Rightarrow> error + nat list" where
  "infer_size sizes numel =
     (if list_ex (\<lambda>d. d < -1) sizes then Inl RuntimeError
      else if 1 < length (filter (\<lambda>d. d = -1) sizes) then Inl RuntimeError
      else
        let newsize = prod_list (map nat (filter (\<lambda>d. 0 \<le> d) sizes)) in
        if list_ex (\<lambda>d. d = -1) sizes then
          (if numel = newsize \<or> (0 < newsize \<and> numel mod newsize = 0) then
             (if newsize = 0 then Inl RuntimeError
              else Inr (map (\<lambda>d. if d = -1 then numel div newsize else nat d) sizes))
           else Inl RuntimeError)
        else if numel = newsize then Inr (map nat sizes)
        else Inl RuntimeError)"

definition view :: "'a tensor \<Rightarrow> int list \<Rightarrow> error + 'a tensor" where
  "view t sizes =
     and_then (infer_size sizes (prod_list (shape t)))
       (\<lambda>s. Inr \<lparr>shape = s, data = data t\<rparr>)"

text \<open>
  \<^verbatim>\<open>Tensor.permute(*dims)\<close>: output axis \<open>k\<close> is input axis \<open>dims ! k\<close>, so the output
  element at multi-index \<open>j\<close> is the input element whose \<open>d\<close>-th coordinate is the
  coordinate of \<open>j\<close> at the position where \<open>d\<close> occurs in \<open>dims\<close>.
\<close>

fun index_of :: "nat list \<Rightarrow> nat \<Rightarrow> nat" where
  "index_of [] d = 0"
| "index_of (x # xs) d = (if x = d then 0 else Suc (index_of xs d))"

definition source_index :: "nat list \<Rightarrow> nat list \<Rightarrow> nat list" where
  "source_index dims j = map (\<lambda>d. j ! index_of dims d) [0..<length dims]"

definition permute :: "'a tensor \<Rightarrow> nat list \<Rightarrow> error + 'a tensor" where
  "permute t dims =
     (let s = shape t in
      if length dims = length s \<and> distinct dims \<and> list_all (\<lambda>d. d < length s) dims then
        let s' = map ((!) s) dims in
        Inr \<lparr>shape = s',
             data = map (\<lambda>j. data t ! flat_index s (source_index dims j)) (indices s')\<rparr>
      else Inl RuntimeError)"

section \<open>Windowing utility\<close>

text \<open>
  The \<^verbatim>\<open>window_size\<close> argument is dynamically typed: the functions below do
  integer arithmetic on it, while \<^verbatim>\<open>Attention\<close> stores a pair and indexes it.
\<close>

datatype wsize = WInt int | WTuple int int

text \<open>
  \<^verbatim>\<open>window_partition(x, window_size)\<close>, lines 24-36.  \<^verbatim>\<open>H // window_size\<close> is
  a \<^verbatim>\<open>TypeError\<close> on a tuple and a \<^verbatim>\<open>ZeroDivisionError\<close> on zero.
\<close>

definition window_partition :: "'a tensor \<Rightarrow> wsize \<Rightarrow> error + 'a tensor" where
  "window_partition x window_size =
     (case shape x of
        [B, H, W, C] \<Rightarrow>
          (case window_size of
             WTuple _ _ \<Rightarrow> Inl TypeError
           | WInt ws \<Rightarrow>
               if ws = 0 then Inl ZeroDivisionError
               else
                 and_then (view x [int B, int H div ws, ws, int W div ws, ws, int C]) (\<lambda>x.
                 and_then (permute x [0, 1, 3, 2, 4, 5]) (\<lambda>x.
                 view x [-1, ws, ws, int C])))
      | _ \<Rightarrow> Inl ValueError)"

text \<open>
  Python's \<^verbatim>\<open>int(a / b)\<close>: true division, then truncation towards zero.  The
  quotient is taken exactly (a rational); 64-bit floats give the same value
  whenever the operands and the exact quotient are integers below \<open>2^53\<close>,
  which is the case wherever the window count divides the batch of windows.
\<close>

definition py_int :: "rat \<Rightarrow> int" where
  "py_int q = (if 0 \<le> q then \<lfloor>q\<rfloor> else \<lceil>q\<rceil>)"

definition true_div :: "rat \<Rightarrow> rat \<Rightarrow> error + rat" where
  "true_div a b = (if b = 0 then Inl ZeroDivisionError else Inr (a / b))"

text \<open>\<^verbatim>\<open>window_reverse(windows, window_size, H, W)\<close>, lines 39-53.\<close>

definition window_reverse :: "'a tensor \<Rightarrow> wsize \<Rightarrow> int \<Rightarrow> int \<Rightarrow> error + 'a tensor" where
  "window_reverse windows window_size H W =
     (case shape windows of
        [] \<Rightarrow> Inl IndexError
      | n0 # _ \<Rightarrow>
          (case window_size of
             WTuple _ _ \<Rightarrow> Inl TypeError
           | WInt ws \<Rightarrow>
               and_then (true_div (of_int (H * W)) (of_int ws)) (\<lambda>q1.
               and_then (true_div q1 (of_int ws)) (\<lambda>q2.
               and_then (true_div (of_nat n0) q2) (\<lambda>q3.
                 let B = py_int q3 in
                 and_then (view windows [B, H div ws, W div ws, ws, ws, -1]) (\<lambda>x.
                 and_then (permute x [0, 1, 3, 2, 4, 5]) (\<lambda>x.
                 view x [B, H, W, -1])))))))"


section \<open>Tensor primitives used by the attention modules\<close>

text \<open>
  Floating-point arithmetic is not interpreted: the operations on elements are
  the fields of a record that every function below takes as its first argument.
  \<open>f_dot\<close> is the inner product a matrix-multiplication kernel computes for one
  output element, \<open>f_softmax r i\<close> the \<open>i\<close>-th entry of the softmax of row \<open>r\<close>.
\<close>

record 'a float_ops =
  f_zero :: 'a
  f_add :: "'a \<Rightarrow> 'a \<Rightarrow> 'a"
  f_mul :: "'a \<Rightarrow> 'a \<Rightarrow> 'a"
  f_dot :: "'a list \<Rightarrow> 'a list \<Rightarrow> 'a"
  f_softmax :: "'a list \<Rightarrow> nat \<Rightarrow> 'a"

text \<open>
  Library modules (\<^verbatim>\<open>nn.Linear\<close>, \<^verbatim>\<open>nn.Dropout\<close>, \<^verbatim>\<open>nn.LayerNorm\<close>, \<^verbatim>\<open>nn.Softmax\<close>,
  \<^verbatim>\<open>DropPath\<close>) and the sub-modules taken over from \<^verbatim>\<open>mix_transformer\<close> are
  parameters: a layer maps a tensor to a tensor or raises.
\<close>

type_synonym 'a layer = "'a tensor \<Rightarrow> error + 'a tensor"

definition elem :: "'a tensor \<Rightarrow> nat list \<Rightarrow> 'a" where
  "elem t j = data t ! flat_index (shape t) j"

text \<open>Tuple unpacking of \<^verbatim>\<open>x.shape\<close>: a \<^verbatim>\<open>ValueError\<close> unless the rank matches.\<close>

definition unpack3 :: "nat list \<Rightarrow> error + nat \<times> nat \<times> nat" where
  "unpack3 s = (case s of [a, b, c] \<Rightarrow> Inr (a, b, c) | _ \<Rightarrow> Inl ValueError)"

definition unpack4 :: "nat list \<Rightarrow> error + nat \<times> nat \<times> nat \<times> nat" where
  "unpack4 s = (case s of [a, b, c, d] \<Rightarrow> Inr (a, b, c, d) | _ \<Rightarrow> Inl ValueError)"

definition floor_div :: "int \<Rightarrow> int \<Rightarrow> error + int" where
  "floor_div a b = (if b = 0 then Inl ZeroDivisionError else Inr (a div b))"

definition py_mod :: "int \<Rightarrow> int \<Rightarrow> error + int" where
  "py_mod a b = (if b = 0 then Inl ZeroDivisionError else Inr (a mod b))"

text \<open>\<^verbatim>\<open>window_size[i]\<close>: an integer is not subscriptable.\<close>

definition ws_item :: "wsize \<Rightarrow> nat \<Rightarrow> error + int" where
  "ws_item w i =
     (case w of
        WInt _ \<Rightarrow> Inl TypeError
      | WTuple a b \<Rightarrow> if i = 0 then Inr a else if i = 1 then Inr b else Inl IndexError)"

text \<open>\<^verbatim>\<open>Tensor.reshape\<close> infers sizes as \<^verbatim>\<open>view\<close> does; on values the two agree.\<close>

definition reshape :: "'a tensor \<Rightarrow> int list \<Rightarrow> error + 'a tensor" where
  "reshape t sizes = view t sizes"

text \<open>
  \<^verbatim>\<open>F.pad(x, (0, 0, 0, pad_r, 0, pad_b))\<close>: constant zero padding at the trailing
  edge of the second-to-last and third-to-last axes; a negative amount crops.
\<close>

definition pad :: "'a float_ops \<Rightarrow> 'a tensor \<Rightarrow> int \<Rightarrow> int \<Rightarrow> error + 'a tensor" where
  "pad ops x pad_r pad_b =
     (let s = shape x; r = length s in
      if r < 3 then Inl RuntimeError
      else
        let H = s ! (r - 3); W = s ! (r - 2);
            H' = int H + pad_b; W' = int W + pad_r in
        if H' < 0 \<or> W' < 0 then Inl RuntimeError
        else
          let s' = s[r - 3 := nat H', r - 2 := nat W'] in
          Inr \<lparr>shape = s',
               data = map (\<lambda>j. if j ! (r - 3) < H \<and> j ! (r - 2) < W then elem x j else f_zero ops)
                        (indices s')\<rparr>)"

text \<open>einops \<^verbatim>\<open>repeat(gt, "g c -> b g c", b=B)\<close>: the input must have rank two.\<close>

definition repeat_g_c :: "'a tensor \<Rightarrow> nat \<Rightarrow> error + 'a tensor" where
  "repeat_g_c gt b =
     (case shape gt of
        [g, c] \<Rightarrow> Inr \<lparr>shape = [b, g, c], data = concat (replicate b (data gt))\<rparr>
      | _ \<Rightarrow> Inl EinopsError)"

text \<open>
  \<^verbatim>\<open>torch.cat([a, b], dim=1)\<close>: both tensors need the same rank and the same
  sizes on every axis but the second.
\<close>

definition cat1 :: "'a tensor \<Rightarrow> 'a tensor \<Rightarrow> error + 'a tensor" where
  "cat1 a b =
     (let sa = shape a; sb = shape b in
      if length sa < 2 then Inl IndexError
      else if length sa \<noteq> length sb then Inl RuntimeError
      else if sa[1 := 0] \<noteq> sb[1 := 0] then Inl RuntimeError
      else
        let s' = sa[1 := sa ! 1 + sb ! 1] in
        Inr \<lparr>shape = s',
             data = map (\<lambda>j. if j ! 1 < sa ! 1 then elem a j else elem b (j[1 := j ! 1 - sa ! 1]))
                      (indices s')\<rparr>)"

text \<open>
  Basic slicing \<^verbatim>\<open>t[..., start:stop, ...]\<close> along one axis, with Python's
  treatment of the bounds: a missing bound is the end of the axis, a negative
  bound counts from the end, and both are clamped into the axis.
\<close>

definition slice_bound :: "nat \<Rightarrow> int \<Rightarrow> nat" where
  "slice_bound n v =
     (let v' = (if v < 0 then v + int n else v)
      in if v' < 0 then 0 else if int n < v' then n else nat v')"

definition slice_axis :: "'a tensor \<Rightarrow> nat \<Rightarrow> int option \<Rightarrow> int option \<Rightarrow> 'a tensor" where
  "slice_axis t d start stop =
     (let s = shape t; n = s ! d;
          lo = (case start of None \<Rightarrow> 0 | Some v \<Rightarrow> slice_bound n v);
          hi = (case stop of None \<Rightarrow> n | Some v \<Rightarrow> slice_bound n v);
          s' = s[d := hi - lo]
      in \<lparr>shape = s', data = map (\<lambda>j. elem t (j[d := j ! d + lo])) (indices s')\<rparr>)"

text \<open>\<^verbatim>\<open>pe[start:stop, :]\<close> needs two axes, \<^verbatim>\<open>x[:, start:stop, :]\<close> three.\<close>

definition slice_rows :: "'a tensor \<Rightarrow> int \<Rightarrow> int \<Rightarrow> error + 'a tensor" where
  "slice_rows t start stop =
     (if length (shape t) < 2 then Inl IndexError
      else Inr (slice_axis t 0 (Some start) (Some stop)))"

definition slice_tokens :: "'a tensor \<Rightarrow> int option \<Rightarrow> int option \<Rightarrow> error + 'a tensor" where
  "slice_tokens t start stop =
     (if length (shape t) < 3 then Inl IndexError
      else Inr (slice_axis t 1 start stop))"

text \<open>\<^verbatim>\<open>t[i]\<close> for a literal index \<open>i\<close>: selects along the first axis.\<close>

definition select0 :: "'a tensor \<Rightarrow> nat \<Rightarrow> error + 'a tensor" where
  "select0 t i =
     (case shape t of
        [] \<Rightarrow> Inl IndexError
      | n # ns \<Rightarrow>
          if n \<le> i then Inl IndexError
          else Inr \<lparr>shape = ns,
                    data = take (prod_list ns) (drop (i * prod_list ns) (data t))\<rparr>)"

text \<open>Elementwise \<^verbatim>\<open>a + b\<close> with broadcasting: shapes are aligned at the last axis.\<close>

fun broadcast_dims :: "nat list \<Rightarrow> nat list \<Rightarrow> error + nat list" where
  "broadcast_dims [] [] = Inr []"
| "broadcast_dims (a # as) (b # bs) =
     (if a = b \<or> b = 1 then and_then (broadcast_dims as bs) (\<lambda>r. Inr (a # r))
      else if a = 1 then and_then (broadcast_dims as bs) (\<lambda>r. Inr (b # r))
      else Inl RuntimeError)"
| "broadcast_dims _ _ = Inl RuntimeError"

definition pad_ones :: "nat \<Rightarrow> nat list \<Rightarrow> nat list" where
  "pad_ones r s = replicate (r - length s) 1 @ s"

definition broadcast_index :: "nat list \<Rightarrow> nat list \<Rightarrow> nat list" where
  "broadcast_index s j =
     map2 (\<lambda>d i. if d = 1 then 0 else i) s (drop (length j - length s) j)"

definition add :: "'a float_ops \<Rightarrow> 'a tensor \<Rightarrow> 'a tensor \<Rightarrow> error + 'a tensor" where
  "add ops a b =
     (let r = max (length (shape a)) (length (shape b)) in
      and_then (broadcast_dims (pad_ones r (shape a)) (pad_ones r (shape b))) (\<lambda>s.
        Inr \<lparr>shape = s,
             data = map (\<lambda>j. f_add ops (elem a (broadcast_index (shape a) j))
                                        (elem b (broadcast_index (shape b) j)))
                      (indices s)\<rparr>))"

text \<open>\<^verbatim>\<open>t * scale\<close> with a scalar.\<close>

definition scale_by :: "'a float_ops \<Rightarrow> 'a tensor \<Rightarrow> 'a \<Rightarrow> 'a tensor" where
  "scale_by ops t c = t\<lparr>data := map (\<lambda>v. f_mul ops v c) (data t)\<rparr>"

text \<open>\<^verbatim>\<open>t.transpose(-2, -1)\<close> and \<^verbatim>\<open>t.transpose(1, 2)\<close>.\<close>

definition transpose_last :: "'a tensor \<Rightarrow> error + 'a tensor" where
  "transpose_last t =
     (let r = length (shape t) in
      if r < 2 then Inl IndexError
      else permute t ([0..<r - 2] @ [r - 1, r - 2]))"

definition transpose_1_2 :: "'a tensor \<Rightarrow> error + 'a tensor" where
  "transpose_1_2 t =
     (let r = length (shape t) in
      if r < 3 then Inl IndexError
      else permute t ([0, 2, 1] @ [3..<r]))"

text \<open>
  Batched matrix product \<^verbatim>\<open>a @ b\<close>.  Every call in the module multiplies two
  tensors that were reshaped to the same leading axes, so operands of rank
  below two or with different leading axes (which torch would promote or
  broadcast) are reported as an error here.
\<close>

definition matmul :: "'a float_ops \<Rightarrow> 'a tensor \<Rightarrow> 'a tensor \<Rightarrow> error + 'a tensor" where
  "matmul ops a b =
     (let sa = shape a; sb = shape b; ra = length sa; rb = length sb in
      if ra < 2 \<or> rb < 2 then Inl RuntimeError
      else if take (ra - 2) sa \<noteq> take (rb - 2) sb then Inl RuntimeError
      else if sa ! (ra - 1) \<noteq> sb ! (rb - 2) then Inl RuntimeError
      else
        let k = sa ! (ra - 1); s' = take (ra - 2) sa @ [sa ! (ra - 2), sb ! (rb - 1)] in
        Inr \<lparr>shape = s',
             data = map (\<lambda>j.
                      let batch = take (ra - 2) j; i = j ! (ra - 2); l = j ! (ra - 1) in
                      f_dot ops (map (\<lambda>m. elem a (batch @ [i, m])) [0..<k])
                                (map (\<lambda>m. elem b (batch @ [m, l])) [0..<k]))
                      (indices s')\<rparr>)"

text \<open>\<^verbatim>\<open>t.softmax(dim=-1)\<close>: every row along the last axis is normalised on its own.\<close>

definition softmax_last :: "'a float_ops \<Rightarrow> 'a tensor \<Rightarrow> 'a tensor" where
  "softmax_last ops t =
     (let n = (if shape t = [] then 1 else last (shape t));
          rows = map (\<lambda>i. take n (drop (i * n) (data t))) [0..<prod_list (butlast (shape t))]
      in t\<lparr>data := concat (map (\<lambda>r. map (f_softmax ops r) [0..<n]) rows)\<rparr>)"


section \<open>Global-Token Attention: \<^verbatim>\<open>ClassicAttention\<close>\<close>

record 'a ClassicAttention =
  ca_num_heads :: int
  ca_scale :: 'a
  ca_qkv :: "'a layer"
  ca_softmax :: "'a layer"
  ca_attn_drop :: "'a layer"
  ca_proj :: "'a layer"
  ca_proj_drop :: "'a layer"

text \<open>Lines 134-146: the attention proper, on the input that already carries the embedding.\<close>

definition ClassicAttention_attend ::
  "'a float_ops \<Rightarrow> 'a ClassicAttention \<Rightarrow> nat \<Rightarrow> nat \<Rightarrow> nat \<Rightarrow> 'a tensor \<Rightarrow> error + 'a tensor" where
  "ClassicAttention_attend ops A B' N C x =
     and_then (ca_qkv A x) (\<lambda>y.
     and_then (floor_div (int C) (ca_num_heads A)) (\<lambda>hd.
     and_then (reshape y [int B', int N, 3, ca_num_heads A, hd]) (\<lambda>y.
     and_then (permute y [2, 0, 3, 1, 4]) (\<lambda>qkv.
     and_then (select0 qkv 0) (\<lambda>q.
     and_then (select0 qkv 1) (\<lambda>k.
     and_then (select0 qkv 2) (\<lambda>v.
       let q = scale_by ops q (ca_scale A) in
     and_then (transpose_last k) (\<lambda>kt.
     and_then (matmul ops q kt) (\<lambda>attn.
     and_then (ca_softmax A attn) (\<lambda>attn.
     and_then (ca_attn_drop A attn) (\<lambda>attn.
     and_then (matmul ops attn v) (\<lambda>x.
     and_then (transpose_1_2 x) (\<lambda>x.
     and_then (reshape x [int B', int N, int C]) (\<lambda>x.
     and_then (ca_proj A x) (\<lambda>x.
     ca_proj_drop A x)))))))))))))))"

text \<open>\<^verbatim>\<open>ClassicAttention.forward(x, pe)\<close>, lines 121-146.\<close>

definition ClassicAttention_forward ::
  "'a float_ops \<Rightarrow> 'a ClassicAttention \<Rightarrow> 'a tensor \<Rightarrow> 'a tensor \<Rightarrow> error + 'a tensor" where
  "ClassicAttention_forward ops A x pe =
     and_then (unpack3 (shape x)) (\<lambda>(B', N, C).
       case shape pe of
         [] \<Rightarrow> Inl IndexError
       | m # _ \<Rightarrow>
           let strt = int m div 2 - int N div 2 in
           and_then (slice_rows pe strt (strt + int N)) (\<lambda>pe.
           and_then (add ops x pe) (\<lambda>x.
           ClassicAttention_attend ops A B' N C x)))"

section \<open>Local Attention: \<^verbatim>\<open>Attention\<close>\<close>

record 'a Attention =
  a_num_heads :: int
  a_scale :: 'a
  a_q :: "'a layer"
  a_kv :: "'a layer"
  a_attn_drop :: "'a layer"
  a_proj :: "'a layer"
  a_proj_drop :: "'a layer"
  a_gt_num :: int
  a_window_size :: wsize

text \<open>
  Lines 186-224, everything after the windows have been computed.  \<open>x\<close> is the
  padded grid, \<open>x_windows\<close> what lines 184-185 produced; line 186 rebinds the
  latter to the former.
\<close>

definition Attention_attend ::
  "'a float_ops \<Rightarrow> 'a Attention \<Rightarrow> 'a tensor \<Rightarrow> 'a tensor \<Rightarrow> 'a tensor
     \<Rightarrow> error + 'a tensor \<times> 'a tensor" where
  "Attention_attend ops A x gt x_windows =
     (let x_windows = x in
      and_then (unpack3 (shape x_windows)) (\<lambda>(B, N', C).
      and_then
        (if a_gt_num A \<noteq> 0 then
           and_then (if length (shape gt) \<noteq> 3 then repeat_g_c gt B else Inr gt) (\<lambda>gt.
           cat1 gt x)
         else Inr x_windows) (\<lambda>x_windows.
      and_then (unpack3 (shape x_windows)) (\<lambda>(B, N, C).
      and_then (a_q A x_windows) (\<lambda>q.
      and_then (floor_div (int C) (a_num_heads A)) (\<lambda>hd.
      and_then (reshape q [int B, int N, a_num_heads A, hd]) (\<lambda>q.
      and_then (permute q [0, 2, 1, 3]) (\<lambda>q.
      and_then (a_kv A x_windows) (\<lambda>kv.
      and_then (reshape kv [int B, - 1, 2, a_num_heads A, hd]) (\<lambda>kv.
      and_then (permute kv [2, 0, 3, 1, 4]) (\<lambda>kv.
      and_then (select0 kv 0) (\<lambda>k.
      and_then (select0 kv 1) (\<lambda>v.
      and_then (transpose_last k) (\<lambda>kt.
      and_then (matmul ops q kt) (\<lambda>attn.
        let attn = scale_by ops attn (a_scale A);
            attn = softmax_last ops attn in
      and_then (a_attn_drop A attn) (\<lambda>attn.
      and_then (matmul ops attn v) (\<lambda>x.
      and_then (transpose_1_2 x) (\<lambda>x.
      and_then (reshape x [int B, int N, int C]) (\<lambda>x.
      and_then (a_proj A x) (\<lambda>x.
      and_then (a_proj_drop A x) (\<lambda>x.
      and_then (slice_tokens x (Some (a_gt_num A)) None) (\<lambda>tokens.
      and_then (slice_tokens x None (Some (a_gt_num A))) (\<lambda>globals.
      Inr (tokens, globals))))))))))))))))))))))))"

text \<open>\<^verbatim>\<open>Attention.forward(x, H, W, gt)\<close>, lines 172-224.\<close>

definition Attention_forward ::
  "'a float_ops \<Rightarrow> 'a Attention \<Rightarrow> 'a tensor \<Rightarrow> int \<Rightarrow> int \<Rightarrow> 'a tensor
     \<Rightarrow> error + 'a tensor \<times> 'a tensor" where
  "Attention_forward ops A x H W gt =
     and_then (unpack3 (shape x)) (\<lambda>(B, N', C).
     and_then (view x [int B, H, W, int C]) (\<lambda>x.
     and_then (ws_item (a_window_size A) 0) (\<lambda>w0.
     and_then (py_mod H w0) (\<lambda>r0.
       let pad_b = (w0 - r0) mod w0 in
     and_then (ws_item (a_window_size A) 1) (\<lambda>w1.
     and_then (py_mod W w1) (\<lambda>r1.
       let pad_r = (w1 - r1) mod w1 in
     and_then (pad ops x pad_r pad_b) (\<lambda>x.
     and_then (unpack4 (shape x)) (\<lambda>(_, Hp, Wp, _).
     and_then (window_partition x (a_window_size A)) (\<lambda>x_windows.
     and_then (view x_windows [- 1, w0 * w1, int C]) (\<lambda>x_windows.
     Attention_attend ops A x gt x_windows))))))))))"

section \<open>Global-token feed-forward: \<^verbatim>\<open>ClassiqueMlp\<close>\<close>

record 'a ClassiqueMlp =
  m_fc1 :: "'a layer"
  m_dwconv :: "'a tensor \<Rightarrow> int \<Rightarrow> int \<Rightarrow> error + 'a tensor"
  m_act :: "'a layer"
  m_drop :: "'a layer"
  m_fc2 :: "'a layer"

text \<open>\<^verbatim>\<open>ClassiqueMlp.forward(x, H, W)\<close>, lines 84-91.\<close>

definition ClassiqueMlp_forward ::
  "'a ClassiqueMlp \<Rightarrow> 'a tensor \<Rightarrow> int \<Rightarrow> int \<Rightarrow> error + 'a tensor" where
  "ClassiqueMlp_forward m x H W =
     and_then (m_fc1 m x) (\<lambda>x.
     and_then (m_dwconv m x H W) (\<lambda>x.
     and_then (m_act m x) (\<lambda>x.
     and_then (m_drop m x) (\<lambda>x.
     and_then (m_fc2 m x) (\<lambda>x.
     m_drop m x)))))"

text \<open>
  \<^verbatim>\<open>Block.forward\<close> calls \<^verbatim>\<open>self.gt_mlp1(...)\<close> and \<^verbatim>\<open>self.gt_mlp2(...)\<close> with one
  argument, while \<^verbatim>\<open>forward\<close> requires \<^verbatim>\<open>H\<close> and \<^verbatim>\<open>W\<close> as well: the call raises
  \<^verbatim>\<open>TypeError\<close> before the body runs.
\<close>

definition ClassiqueMlp_call1 :: "'a ClassiqueMlp \<Rightarrow> 'a tensor \<Rightarrow> error + 'a tensor" where
  "ClassiqueMlp_call1 m x = Inl TypeError"

section \<open>Global-token regrouping\<close>

text \<open>
  einops \<^verbatim>\<open>rearrange(gt, "(b n) g c -> b (n g) c", n=nw)\<close>, line 271.  The first
  axis is split into \<open>b\<close> chunks of \<open>n\<close>; the axes keep their order, so the elements
  stay in place.
\<close>

definition rearrange_per_batch :: "'a tensor \<Rightarrow> nat \<Rightarrow> error + 'a tensor" where
  "rearrange_per_batch gt n =
     (case shape gt of
        [bn, g, c] \<Rightarrow>
          if n = 0 then Inl ZeroDivisionError
          else if bn mod n \<noteq> 0 then Inl EinopsError
          else Inr \<lparr>shape = [bn div n, n * g, c], data = data gt\<rparr>
      | _ \<Rightarrow> Inl EinopsError)"

text \<open>
  einops \<^verbatim>\<open>rearrange(gt, "b (n g) c -> (b n) g c", g=ngt, c=c)\<close>, line 275: the
  middle axis is divided by the given \<open>g\<close>, and the last axis must be \<open>c\<close>.
\<close>

definition rearrange_per_window :: "'a tensor \<Rightarrow> nat \<Rightarrow> nat \<Rightarrow> error + 'a tensor" where
  "rearrange_per_window gt g c =
     (case shape gt of
        [b, ng, c'] \<Rightarrow>
          if g = 0 then Inl ZeroDivisionError
          else if ng mod g \<noteq> 0 then Inl EinopsError
          else if c' \<noteq> c then Inl EinopsError
          else Inr \<lparr>shape = [b * (ng div g), g, c], data = data gt\<rparr>
      | _ \<Rightarrow> Inl EinopsError)"


section \<open>Transformer block\<close>

text \<open>
  The sub-modules \<^verbatim>\<open>__init__\<close> creates only when \<^verbatim>\<open>do_gmsa\<close> is true (lines 240-249).
\<close>

record 'a gmsa =
  gt_mlp1 :: "'a ClassiqueMlp"
  gt_attn :: "'a ClassicAttention"
  gt_mlp2 :: "'a ClassiqueMlp"
  gt_norm1 :: "'a layer"
  gt_norm2 :: "'a layer"

text \<open>
  A block holds its sub-modules; \<^verbatim>\<open>self.attn\<close> is called through the attribute,
  so it is a field (line 233 stores an \<^verbatim>\<open>Attention\<close> there).  \<open>b_gmsa\<close> is \<open>None\<close>
  exactly for a block built with \<^verbatim>\<open>do_gmsa=False\<close>.
\<close>

record 'a Block =
  b_norm1 :: "'a layer"
  b_attn :: "'a tensor \<Rightarrow> int \<Rightarrow> int \<Rightarrow> 'a tensor \<Rightarrow> error + 'a tensor \<times> 'a tensor"
  b_drop_path :: "'a layer"
  b_norm2 :: "'a layer"
  b_mlp :: "'a tensor \<Rightarrow> int \<Rightarrow> int \<Rightarrow> error + 'a tensor"
  b_gt_num :: int
  b_gmsa :: "'a gmsa option"

definition do_gmsa :: "'a Block \<Rightarrow> bool" where
  "do_gmsa blk \<longleftrightarrow> b_gmsa blk \<noteq> None"

text \<open>
  \<^verbatim>\<open>Block.forward(x, H, W, gt, pe)\<close>, lines 251-277.  The condition on line 262
  reads \<^verbatim>\<open>if self.gt_num != 0 and :\<close> in the source: the right operand of \<^verbatim>\<open>and\<close>
  is missing.  It is the argument \<open>rhs\<close> here, so that what is proved about the
  function holds for every way of completing the line.  Reading an attribute
  that \<^verbatim>\<open>__init__\<close> did not create is an \<^verbatim>\<open>AttributeError\<close>.
\<close>

definition Block_forward ::
  "'a float_ops \<Rightarrow> 'a Block \<Rightarrow> bool \<Rightarrow> 'a tensor \<Rightarrow> int \<Rightarrow> int \<Rightarrow> 'a tensor \<Rightarrow> 'a tensor
     \<Rightarrow> error + 'a tensor \<times> 'a tensor" where
  "Block_forward ops blk rhs x H W gt pe =
     and_then (unpack3 (shape x)) (\<lambda>(B, N, C).
       let skip = x; skip_gt = gt in
     and_then (b_norm1 blk x) (\<lambda>x.
     and_then (b_attn blk x H W gt) (\<lambda>(x, gt).
     and_then (b_drop_path blk x) (\<lambda>dx.
     and_then (add ops skip dx) (\<lambda>x.
     and_then (b_norm2 blk x) (\<lambda>nx.
     and_then (b_mlp blk nx H W) (\<lambda>mx.
     and_then (b_drop_path blk mx) (\<lambda>dx.
     and_then (add ops x dx) (\<lambda>x.
       if b_gt_num blk \<noteq> 0 \<and> rhs then
         and_then (if length (shape skip_gt) \<noteq> 3 then repeat_g_c gt B else Inr skip_gt) (\<lambda>skip_gt.
           case b_gmsa blk of
             None \<Rightarrow> Inl AttributeError
           | Some g \<Rightarrow>
               and_then (b_norm2 blk gt) (\<lambda>ngt.
               and_then (ClassiqueMlp_call1 (gt_mlp1 g) ngt) (\<lambda>mgt.
               and_then (b_drop_path blk mgt) (\<lambda>dgt.
               and_then (add ops skip_gt dgt) (\<lambda>gt.
               and_then (unpack3 (shape gt)) (\<lambda>(B, ngt, c).
                 case shape x of
                   [] \<Rightarrow> Inl IndexError
                 | x0 # _ \<Rightarrow>
                     if x0 = 0 then Inl ZeroDivisionError
                     else
                       let nw = B div x0 in
                       and_then (rearrange_per_batch gt nw) (\<lambda>gt.
                       and_then (gt_norm1 g gt) (\<lambda>n1.
                       and_then (ClassicAttention_forward ops (gt_attn g) n1 pe) (\<lambda>a.
                       and_then (b_drop_path blk a) (\<lambda>da.
                       and_then (add ops gt da) (\<lambda>gt.
                       and_then (gt_norm2 g gt) (\<lambda>n2.
                       and_then (ClassiqueMlp_call1 (gt_mlp2 g) n2) (\<lambda>m2.
                       and_then (b_drop_path blk m2) (\<lambda>d2.
                       and_then (add ops gt d2) (\<lambda>gt.
                       and_then (rearrange_per_window gt ngt c) (\<lambda>gt.
                       Inr (x, gt)))))))))))))))))
       else Inr (x, gt))))))))))"

section \<open>Encoder: \<^verbatim>\<open>SegFormerGTOmega\<close>\<close>

text \<open>
  The patch embeddings and the final norms come from \<^verbatim>\<open>mix_transformer\<close> and are
  parameters.  A patch embedding returns the tokens with the grid height and width.
\<close>

type_synonym 'a patch_embed = "'a tensor \<Rightarrow> error + 'a tensor \<times> int \<times> int"

record 'a SegFormerGTOmega =
  patch_embed1 :: "'a patch_embed"
  patch_embed2 :: "'a patch_embed"
  patch_embed3 :: "'a patch_embed"
  patch_embed4 :: "'a patch_embed"
  block1 :: "'a Block list"
  block2 :: "'a Block list"
  block3 :: "'a Block list"
  block4 :: "'a Block list"
  norm1 :: "'a layer"
  norm2 :: "'a layer"
  norm3 :: "'a layer"
  norm4 :: "'a layer"
  global_token1 :: "'a tensor"
  global_token2 :: "'a tensor"
  global_token3 :: "'a tensor"
  global_token4 :: "'a tensor"
  pe1 :: "'a tensor"
  pe2 :: "'a tensor"
  pe3 :: "'a tensor"
  pe4 :: "'a tensor"

text \<open>The loop \<^verbatim>\<open>for i, blk in enumerate(self.blockN): x, gt = blk(x, H, W, gt, self.peN)\<close>.\<close>

fun run_blocks ::
  "'a float_ops \<Rightarrow> bool \<Rightarrow> 'a Block list \<Rightarrow> 'a tensor \<Rightarrow> int \<Rightarrow> int \<Rightarrow> 'a tensor \<Rightarrow> 'a tensor
     \<Rightarrow> error + 'a tensor \<times> 'a tensor" where
  "run_blocks ops rhs [] x H W gt pe = Inr (x, gt)"
| "run_blocks ops rhs (blk # blks) x H W gt pe =
     and_then (Block_forward ops blk rhs x H W gt pe) (\<lambda>(x, gt).
     run_blocks ops rhs blks x H W gt pe)"

text \<open>One stage of \<^verbatim>\<open>forward_features\<close> (the four stages, lines 373-407, differ in their fields only).\<close>

definition stage ::
  "'a float_ops \<Rightarrow> bool \<Rightarrow> 'a patch_embed \<Rightarrow> 'a Block list \<Rightarrow> 'a layer \<Rightarrow> 'a tensor \<Rightarrow> 'a tensor
     \<Rightarrow> nat \<Rightarrow> 'a tensor \<Rightarrow> error + 'a tensor" where
  "stage ops rhs patch_embed blks norm_layer global_token pe B x =
     and_then (patch_embed x) (\<lambda>(x, H, W).
       let gt = global_token in
     and_then (run_blocks ops rhs blks x H W gt pe) (\<lambda>(x, gt).
     and_then (norm_layer x) (\<lambda>x.
     and_then (reshape x [int B, H, W, - 1]) (\<lambda>x.
     permute x [0, 3, 1, 2]))))"

text \<open>\<^verbatim>\<open>forward_features(x)\<close>, lines 369-409; \<^verbatim>\<open>forward\<close> returns its result unchanged.\<close>

definition forward_features ::
  "'a float_ops \<Rightarrow> 'a SegFormerGTOmega \<Rightarrow> bool \<Rightarrow> 'a tensor \<Rightarrow> error + 'a tensor list" where
  "forward_features ops M rhs x =
     (case shape x of
        [] \<Rightarrow> Inl IndexError
      | B # _ \<Rightarrow>
          and_then (stage ops rhs (patch_embed1 M) (block1 M) (norm1 M) (global_token1 M) (pe1 M) B x) (\<lambda>x1.
          and_then (stage ops rhs (patch_embed2 M) (block2 M) (norm2 M) (global_token2 M) (pe2 M) B x1) (\<lambda>x2.
          and_then (stage ops rhs (patch_embed3 M) (block3 M) (norm3 M) (global_token3 M) (pe3 M) B x2) (\<lambda>x3.
          and_then (stage ops rhs (patch_embed4 M) (block4 M) (norm4 M) (global_token4 M) (pe4 M) B x3) (\<lambda>x4.
          Inr [x1, x2, x3, x4])))))"

definition forward ::
  "'a float_ops \<Rightarrow> 'a SegFormerGTOmega \<Rightarrow> bool \<Rightarrow> 'a tensor \<Rightarrow> error + 'a tensor list" where
  "forward ops M rhs x = forward_features ops M rhs x"

section \<open>Function signatures\<close>

text \<open>
  Python compiles a module before running any of it, and rejects a \<^verbatim>\<open>def\<close> in
  which a parameter without a default follows one with a default.  The
  parameter list of \<^verbatim>\<open>Block.__init__\<close> is transcribed from lines 229-230.
\<close>

datatype param = Required string | Defaulted string

fun has_default :: "param \<Rightarrow> bool" where
  "has_default (Required _) = False"
| "has_default (Defaulted _) = True"

fun check_signature :: "param list \<Rightarrow> error + unit" where
  "check_signature [] = Inr ()"
| "check_signature (Required _ # ps) = check_signature ps"
| "check_signature (Defaulted _ # ps) =
     (if list_all has_default ps then Inr () else Inl SyntaxError)"

definition Block_init_signature :: "param list" where
  "Block_init_signature =
     [Required ''self'', Required ''block'', Defaulted ''gt_num'', Required ''dim'',
      Required ''num_heads'', Defaulted ''mlp_ratio'', Defaulted ''qkv_bias'',
      Defaulted ''qk_scale'', Defaulted ''drop'', Defaulted ''attn_drop'',
      Defaulted ''drop_path'', Defaulted ''act_layer'', Defaulted ''norm_layer'',
      Defaulted ''sr_ratio'', Defaulted ''window_size'', Defaulted ''do_gmsa'']"


section \<open>The centered slice, as the specification words it\<close>

text \<open>
  Rows \<open>start, \<dots>, start + n - 1\<close> of a table whose first axis indexes the rows.
  This definition follows the specification (``a centered window of length
  equal to the current sequence length''); it is compared below with the
  slice \<^verbatim>\<open>pe[strt:strt+N, :]\<close> that \<^verbatim>\<open>ClassicAttention.forward\<close> takes.
\<close>

definition table_rows :: "'a tensor \<Rightarrow> nat \<Rightarrow> nat \<Rightarrow> 'a tensor" where
  "table_rows pe start n =
     (let row = prod_list (tl (shape pe))
      in \<lparr>shape = n # tl (shape pe), data = take (n * row) (drop (start * row) (data pe))\<rparr>)"

section \<open>Sample modules for concrete evaluation\<close>

text \<open>
  Integer elements with exact arithmetic, identity layers, and a key/value
  projection that doubles the channel axis: enough to run the definitions on
  small inputs.
\<close>

definition sample_ops :: "int float_ops" where
  "sample_ops =
     \<lparr>f_zero = 0, f_add = (+), f_mul = (*),
      f_dot = (\<lambda>xs ys. sum_list (map2 (*) xs ys)),
      f_softmax = (\<lambda>r i. r ! i)\<rparr>"

definition sample_kv :: "int layer" where
  "sample_kv t =
     Inr \<lparr>shape = butlast (shape t) @ [2 * last (shape t)],
          data = concat (map (\<lambda>v. [v, v]) (data t))\<rparr>"

definition sample_attention :: "int \<Rightarrow> int Attention" where
  "sample_attention g =
     \<lparr>a_num_heads = 1, a_scale = 1, a_q = Inr, a_kv = sample_kv, a_attn_drop = Inr,
      a_proj = Inr, a_proj_drop = Inr, a_gt_num = g, a_window_size = WTuple 2 2\<rparr>"

definition sample_classic :: "int ClassicAttention" where
  "sample_classic =
     \<lparr>ca_num_heads = 1, ca_scale = 1, ca_qkv = Inr, ca_softmax = Inr, ca_attn_drop = Inr,
      ca_proj = Inr, ca_proj_drop = Inr\<rparr>"

text \<open>
  A block without the global-token sub-modules (\<^verbatim>\<open>do_gmsa=False\<close>) around the
  attention callable that line 233 stores in it.
\<close>

definition sample_block ::
  "(int tensor \<Rightarrow> int \<Rightarrow> int \<Rightarrow> int tensor \<Rightarrow> error + int tensor \<times> int tensor) \<Rightarrow> int Block" where
  "sample_block attn =
     \<lparr>b_norm1 = Inr, b_attn = attn, b_drop_path = Inr, b_norm2 = Inr,
      b_mlp = (\<lambda>x H W. Inr x), b_gt_num = 1, b_gmsa = None\<rparr>"

definition sample_model :: "int SegFormerGTOmega" where
  "sample_model =
     (let embed = (\<lambda>x. Inr (\<lparr>shape = [1, 4, 1], data = [1, 2, 3, 4]\<rparr>, 2, 2));
          blks = [sample_block (Attention_forward sample_ops (sample_attention 1))];
          token = \<lparr>shape = [1, 1], data = [9]\<rparr>
      in \<lparr>patch_embed1 = embed, patch_embed2 = embed, patch_embed3 = embed, patch_embed4 = embed,
          block1 = blks, block2 = blks, block3 = blks, block4 = blks,
          norm1 = Inr, norm2 = Inr, norm3 = Inr, norm4 = Inr,
          global_token1 = token, global_token2 = token, global_token3 = token,
          global_token4 = token,
          pe1 = token, pe2 = token, pe3 = token, pe4 = token\<rparr>)"

section \<open>Index permutations that are their own inverse\<close>

definition involution :: "nat list \<Rightarrow> bool" where
  "involution p \<longleftrightarrow> distinct p \<and> (\<forall>k<length p. p ! k < length p \<and> p ! (p ! k) = k)"

section \<open>Facts about row-major indexing\<close>

lemma concat_map_offsets:
  "concat (map (\<lambda>i. map (\<lambda>k. i * P + k) [0..<P]) [0..<n]) = [0..<n * P]"
proof (induction n)
  case 0
  show ?case by simp
next
  case (Suc n)
  have "map (\<lambda>k. n * P + k) [0..<P] = [n * P..<n * P + P]"
    using map_add_upt [of "n * P" P] by (simp add: add.commute)
  moreover have "[0..<n * P] @ [n * P..<n * P + P] = [0..<n * P + P]"
    by (rule upt_add_eq_append [symmetric]) simp
  ultimately show ?case using Suc by (simp add: add.commute)
qed

lemma length_indices: "length (indices s) = prod_list s"
proof (induction s)
  case Nil
  show ?case by simp
next
  case (Cons n ns)
  have "length (concat (map (\<lambda>i. map ((#) i) (indices ns)) [0..<n])) = n * prod_list ns"
    using Cons by (induction n) simp_all
  then show ?case by simp
qed

lemma map_flat_index_indices: "map (flat_index s) (indices s) = [0..<prod_list s]"
proof (induction s)
  case Nil
  show ?case by simp
next
  case (Cons n ns)
  have "map (flat_index (n # ns)) (indices (n # ns))
      = concat (map (\<lambda>i. map (\<lambda>k. i * prod_list ns + k) (map (flat_index ns) (indices ns))) [0..<n])"
    by (simp add: map_concat comp_def)
  also have "\<dots> = [0..<n * prod_list ns]"
    by (simp only: Cons concat_map_offsets)
  finally show ?case by simp
qed

lemma set_indices: "j \<in> set (indices s) \<longleftrightarrow> list_all2 (<) j s"
proof (induction s arbitrary: j)
  case Nil
  show ?case by auto
next
  case (Cons n ns)
  show ?case
  proof (cases j)
    case Nil
    then show ?thesis by auto
  next
    case (Cons a list)
    have "a # list \<in> set (indices (n # ns)) \<longleftrightarrow> a < n \<and> list \<in> set (indices ns)"
      by auto
    then show ?thesis using Cons Cons.IH by simp
  qed
qed

lemma flat_index_less: "list_all2 (<) j s \<Longrightarrow> flat_index s j < prod_list s"
proof -
  assume "list_all2 (<) j s"
  then have "j \<in> set (indices s)" by (simp add: set_indices)
  then have "flat_index s j \<in> set (map (flat_index s) (indices s))" by simp
  then show ?thesis by (simp only: map_flat_index_indices) simp
qed

lemma indices_nth_flat_index:
  assumes "list_all2 (<) j s"
  shows "indices s ! flat_index s j = j"
proof -
  from assms have "j \<in> set (indices s)" by (simp add: set_indices)
  then obtain k where k: "k < length (indices s)" "indices s ! k = j"
    by (auto simp: in_set_conv_nth)
  have "flat_index s j = map (flat_index s) (indices s) ! k"
    using k by simp
  also have "\<dots> = k"
    using k by (simp only: map_flat_index_indices) (simp add: length_indices)
  finally show ?thesis using k by simp
qed

lemma gather_all: "length xs = prod_list s \<Longrightarrow> map (\<lambda>j. xs ! flat_index s j) (indices s) = xs"
proof -
  assume len: "length xs = prod_list s"
  have "map (\<lambda>j. xs ! flat_index s j) (indices s) = map ((!) xs) (map (flat_index s) (indices s))"
    by simp
  also have "\<dots> = map ((!) xs) [0..<length xs]"
    by (simp only: map_flat_index_indices len)
  also have "\<dots> = xs" by (rule map_nth)
  finally show ?thesis .
qed

section \<open>Permuting twice\<close>

lemma index_of_nth: "distinct p \<Longrightarrow> k < length p \<Longrightarrow> index_of p (p ! k) = k"
proof (induction p arbitrary: k)
  case Nil
  then show ?case by simp
next
  case (Cons x xs)
  show ?case
  proof (cases k)
    case 0
    then show ?thesis by simp
  next
    case (Suc m)
    with Cons.prems have "m < length xs" "xs ! m \<in> set xs" "x \<notin> set xs" "distinct xs"
      by auto
    then have "x \<noteq> xs ! m" by auto
    with Suc Cons.IH [of m] \<open>distinct xs\<close> \<open>m < length xs\<close> show ?thesis by simp
  qed
qed


lemma source_index_involution:
  assumes "involution p"
  shows "source_index p j = map (\<lambda>d. j ! (p ! d)) [0..<length p]"
proof -
  have "index_of p d = p ! d" if "d < length p" for d
  proof -
    from assms that have "p ! d < length p" "p ! (p ! d) = d" "distinct p"
      by (auto simp: involution_def)
    then show ?thesis using index_of_nth [of p "p ! d"] by simp
  qed
  then show ?thesis by (simp add: source_index_def)
qed

lemma source_index_twice:
  assumes "involution p" "length j = length p"
  shows "source_index p (source_index p j) = j"
proof (rule nth_equalityI)
  show "length (source_index p (source_index p j)) = length j"
    using assms by (simp add: source_index_def)
next
  fix d assume "d < length (source_index p (source_index p j))"
  then have d: "d < length p" by (simp add: source_index_def)
  with assms have "p ! d < length p" "p ! (p ! d) = d" by (auto simp: involution_def)
  then show "source_index p (source_index p j) ! d = j ! d"
    using d by (simp add: source_index_involution [OF assms(1)])
qed

lemma source_index_valid:
  assumes "involution p" "length s = length p" "list_all2 (<) j s"
  shows "list_all2 (<) (source_index p j) (map ((!) s) p)"
proof -
  have len: "length j = length p" using assms by (simp add: list_all2_lengthD)
  have "source_index p j ! d < map ((!) s) p ! d" if "d < length p" for d
  proof -
    from assms(1) that have "p ! d < length p" by (simp add: involution_def)
    then have "j ! (p ! d) < s ! (p ! d)"
      using len by (intro list_all2_nthD [OF assms(3)]) simp
    with that show ?thesis
      by (simp add: source_index_involution [OF assms(1)])
  qed
  then show ?thesis
    by (simp add: list_all2_conv_all_nth source_index_involution [OF assms(1)])
qed

lemma map_shape_twice:
  assumes "involution p" "length s = length p"
  shows "map ((!) (map ((!) s) p)) p = s"
proof (rule nth_equalityI)
  show "length (map ((!) (map ((!) s) p)) p) = length s" using assms by simp
next
  fix d assume "d < length (map ((!) (map ((!) s) p)) p)"
  then have d: "d < length p" by simp
  with assms(1) have "p ! d < length p" "p ! (p ! d) = d" by (auto simp: involution_def)
  then show "map ((!) (map ((!) s) p)) p ! d = s ! d" using d by simp
qed

lemma permute_ok:
  assumes "involution p" "length (shape t) = length p"
  shows "permute t p = Inr \<lparr>shape = map ((!) (shape t)) p,
            data = map (\<lambda>j. data t ! flat_index (shape t) (source_index p j))
                     (indices (map ((!) (shape t)) p))\<rparr>"
proof -
  from assms have "list_all (\<lambda>d. d < length (shape t)) p"
    by (auto simp: involution_def list_all_length)
  moreover from assms have "distinct p" by (simp add: involution_def)
  ultimately show ?thesis using assms(2) by (simp add: permute_def Let_def)
qed

lemma permute_twice:
  assumes inv: "involution p" and len: "length (shape t) = length p" and wf: "well_formed t"
  shows "and_then (permute t p) (\<lambda>u. permute u p) = Inr t"
proof -
  define s where "s = shape t"
  define s' where "s' = map ((!) s) p"
  define u where "u = \<lparr>shape = s', data = map (\<lambda>j. data t ! flat_index s (source_index p j)) (indices s')\<rparr>"
  have pu: "permute t p = Inr u"
    using permute_ok [OF inv len] by (simp add: u_def s'_def s_def)
  have lens: "length s = length p" using len by (simp add: s_def)
  have shu: "shape u = s'" and lenu: "length (shape u) = length p"
    by (simp_all add: u_def s'_def)
  have shape_back: "map ((!) s') p = s"
    unfolding s'_def by (rule map_shape_twice [OF inv lens])
  have elt: "data u ! flat_index s' (source_index p j) = data t ! flat_index s j"
    if "j \<in> set (indices s)" for j
  proof -
    from that have j: "list_all2 (<) j s" by (simp add: set_indices)
    then have lj: "length j = length p" using lens by (simp add: list_all2_lengthD)
    have v: "list_all2 (<) (source_index p j) s'"
      unfolding s'_def by (rule source_index_valid [OF inv lens j])
    then have "flat_index s' (source_index p j) < length (indices s')"
      by (simp add: flat_index_less length_indices)
    then have "data u ! flat_index s' (source_index p j)
        = data t ! flat_index s (source_index p (indices s' ! flat_index s' (source_index p j)))"
      by (simp add: u_def)
    also have "\<dots> = data t ! flat_index s (source_index p (source_index p j))"
      by (simp only: indices_nth_flat_index [OF v])
    also have "\<dots> = data t ! flat_index s j"
      by (simp only: source_index_twice [OF inv lj])
    finally show ?thesis .
  qed
  have "permute u p = Inr \<lparr>shape = map ((!) (shape u)) p,
            data = map (\<lambda>j. data u ! flat_index (shape u) (source_index p j))
                     (indices (map ((!) (shape u)) p))\<rparr>"
    by (rule permute_ok [OF inv lenu])
  also have "\<dots> = Inr \<lparr>shape = s, data = map (\<lambda>j. data u ! flat_index s' (source_index p j)) (indices s)\<rparr>"
    by (simp add: shu shape_back)
  also have "map (\<lambda>j. data u ! flat_index s' (source_index p j)) (indices s)
      = map (\<lambda>j. data t ! flat_index s j) (indices s)"
    by (rule map_cong [OF refl]) (rule elt)
  also have "\<dots> = data t"
    using wf by (simp add: gather_all well_formed_def s_def)
  finally have "permute u p = Inr t" by (simp add: s_def)
  with pu show ?thesis by (simp add: and_then_def)
qed

lemma involution_swap: "involution [0, 1, 3, 2, 4, 5]"
  by (simp add: involution_def less_Suc_eq numeral_eq_Suc nth_Cons')

section \<open>Size inference on the shapes of the windowing functions\<close>

lemma filter_nonneg_map_int: "filter (\<lambda>d. 0 \<le> d) (map int ds) = map int ds"
  by (induction ds) simp_all

lemma filter_hole_map_int: "filter (\<lambda>d. d = - 1) (map int ds) = []"
  by (induction ds) simp_all

lemma no_hole_map_int: "\<not> list_ex (\<lambda>d. d = - 1) (map int ds)"
  by (induction ds) simp_all

lemma no_invalid_map_int: "\<not> list_ex (\<lambda>d. d < - 1) (map int ds)"
  by (induction ds) simp_all

lemma infer_size_exact:
  "numel = prod_list ds \<Longrightarrow> infer_size (map int ds) numel = Inr ds"
  by (simp add: infer_size_def filter_nonneg_map_int filter_hole_map_int
      no_hole_map_int no_invalid_map_int comp_def)

lemma infer_size_last:
  assumes "numel = prod_list ds * c" "0 < prod_list ds"
  shows "infer_size (map int ds @ [- 1]) numel = Inr (ds @ [c])"
  using assms
  by (simp add: infer_size_def filter_nonneg_map_int filter_hole_map_int
      no_hole_map_int no_invalid_map_int comp_def)

lemma infer_size_first:
  assumes "numel = c * prod_list ds" "0 < prod_list ds"
  shows "infer_size (- 1 # map int ds) numel = Inr (c # ds)"
  using assms
  by (simp add: infer_size_def filter_nonneg_map_int filter_hole_map_int
      no_hole_map_int no_invalid_map_int comp_def)

lemma view_window_split:
  assumes "shape x = [B, ws * h, ws * w, C]" "0 < ws"
  shows "view x [int B, int (ws * h) div int ws, int ws, int (ws * w) div int ws, int ws, int C]
       = Inr \<lparr>shape = [B, h, ws, w, ws, C], data = data x\<rparr>"
proof -
  have d: "int (ws * h) div int ws = int h" "int (ws * w) div int ws = int w"
    using assms(2) by (simp_all add: zdiv_int [symmetric] del: of_nat_mult)
  have "infer_size (map int [B, h, ws, w, ws, C]) (prod_list (shape x)) = Inr [B, h, ws, w, ws, C]"
    by (rule infer_size_exact) (simp add: assms)
  then show ?thesis
    unfolding d by (simp add: view_def and_then_def)
qed

lemma view_windows_flatten:
  assumes "shape x = [B, h, w, ws, ws, C]" "0 < ws" "0 < C"
  shows "view x [- 1, int ws, int ws, int C]
       = Inr \<lparr>shape = [B * h * w, ws, ws, C], data = data x\<rparr>"
proof -
  have "infer_size (- 1 # map int [ws, ws, C]) (prod_list (shape x)) = Inr ((B * h * w) # [ws, ws, C])"
    by (rule infer_size_first) (simp_all add: assms)
  then show ?thesis
    by (simp add: view_def and_then_def)
qed

lemma view_windows_unflatten:
  assumes "shape x = [B * h * w, ws, ws, C]" "0 < ws" "0 < B" "0 < h" "0 < w"
  shows "view x [int B, int h, int w, int ws, int ws, - 1]
       = Inr \<lparr>shape = [B, h, w, ws, ws, C], data = data x\<rparr>"
proof -
  have "infer_size (map int [B, h, w, ws, ws] @ [- 1]) (prod_list (shape x)) = Inr ([B, h, w, ws, ws] @ [C])"
    by (rule infer_size_last) (simp_all add: assms)
  then show ?thesis
    by (simp add: view_def and_then_def)
qed

lemma view_window_merge:
  assumes "shape x = [B, h, ws, w, ws, C]" "0 < ws" "0 < B" "0 < h" "0 < w"
  shows "view x [int B, int (ws * h), int (ws * w), - 1]
       = Inr \<lparr>shape = [B, ws * h, ws * w, C], data = data x\<rparr>"
proof -
  have "infer_size (map int [B, ws * h, ws * w] @ [- 1]) (prod_list (shape x)) = Inr ([B, ws * h, ws * w] @ [C])"
    by (rule infer_size_last) (simp_all add: assms)
  then show ?thesis
    by (simp add: view_def and_then_def del: of_nat_mult)
qed


lemma window_count_steps:
  assumes "0 < ws" "0 < h" "0 < w"
  shows "true_div (of_int (int (ws * h) * int (ws * w))) (of_int (int ws)) = Inr (of_nat (h * ws * w))"
    and "true_div (of_nat (h * ws * w)) (of_int (int ws)) = Inr (of_nat (h * w))"
    and "true_div (of_nat (B * h * w)) (of_nat (h * w)) = Inr (of_nat B)"
    and "py_int (of_nat B) = int B"
proof -
  have ws: "(of_nat ws :: rat) \<noteq> 0" using assms by simp
  have nz: "(of_nat (h * w) :: rat) \<noteq> 0" using assms by simp
  show "true_div (of_int (int (ws * h) * int (ws * w))) (of_int (int ws)) = Inr (of_nat (h * ws * w))"
    using ws by (simp add: true_div_def)
  show "true_div (of_nat (h * ws * w)) (of_int (int ws)) = Inr (of_nat (h * w))"
    using ws by (simp add: true_div_def)
  show "true_div (of_nat (B * h * w)) (of_nat (h * w)) = Inr (of_nat B)"
    using nz by (simp add: true_div_def mult.assoc)
  show "py_int (of_nat B) = int B" by (simp add: py_int_def)
qed

lemma roundtrip_core:
  assumes wf: "well_formed x" and sh: "shape x = [B, ws * h, ws * w, C]"
    and pos: "0 < B" "0 < h" "0 < w" "0 < C" "0 < ws"
  shows "and_then (window_partition x (WInt (int ws)))
           (\<lambda>windows. window_reverse windows (WInt (int ws)) (int (ws * h)) (int (ws * w))) = Inr x"
proof -
  define x1 where "x1 = \<lparr>shape = [B, h, ws, w, ws, C], data = data x\<rparr>"
  have wf1: "well_formed x1"
    using wf sh by (simp add: well_formed_def x1_def)
  have len1: "length (shape x1) = length [0, 1, 3, 2, 4, 5::nat]" by (simp add: x1_def)
  obtain x2 where p1: "permute x1 [0, 1, 3, 2, 4, 5] = Inr x2"
    using permute_ok [OF involution_swap len1] by blast
  have p2: "permute x2 [0, 1, 3, 2, 4, 5] = Inr x1"
    using permute_twice [OF involution_swap len1 wf1] p1 by (simp add: and_then_def)
  have sh2: "shape x2 = [B, h, w, ws, ws, C]"
    using p1 permute_ok [OF involution_swap len1] by (auto simp: x1_def)
  define x3 where "x3 = \<lparr>shape = [B * h * w, ws, ws, C], data = data x2\<rparr>"
  have v1: "view x [int B, int (ws * h) div int ws, int ws, int (ws * w) div int ws, int ws, int C] = Inr x1"
    unfolding x1_def by (rule view_window_split [OF sh pos(5)])
  have v2: "view x2 [- 1, int ws, int ws, int C] = Inr x3"
    unfolding x3_def by (rule view_windows_flatten [OF sh2 pos(5) pos(4)])
  have nz: "(int ws = 0) = False" using pos(5) by simp
  have part: "window_partition x (WInt (int ws)) = Inr x3"
    unfolding window_partition_def
    by (simp only: sh list.case wsize.case nz if_False v1 p1 v2 and_then_def sum.case)
  have d: "int (ws * h) div int ws = int h" "int (ws * w) div int ws = int w"
    using pos(5) by (simp_all add: zdiv_int [symmetric] del: of_nat_mult)
  have "view x3 [int B, int h, int w, int ws, int ws, - 1]
      = Inr \<lparr>shape = [B, h, w, ws, ws, C], data = data x3\<rparr>"
    by (rule view_windows_unflatten [OF _ pos(5) pos(1) pos(2) pos(3)]) (simp add: x3_def)
  also have "\<lparr>shape = [B, h, w, ws, ws, C], data = data x3\<rparr> = x2"
    using sh2 by (simp add: x3_def)
  finally have v3: "view x3 [int B, int h, int w, int ws, int ws, - 1] = Inr x2" .
  have "view x1 [int B, int (ws * h), int (ws * w), - 1]
      = Inr \<lparr>shape = [B, ws * h, ws * w, C], data = data x1\<rparr>"
    by (rule view_window_merge [OF _ pos(5) pos(1) pos(2) pos(3)]) (simp add: x1_def)
  also have "\<lparr>shape = [B, ws * h, ws * w, C], data = data x1\<rparr> = x"
    using sh by (simp add: x1_def)
  finally have v4: "view x1 [int B, int (ws * h), int (ws * w), - 1] = Inr x" .
  have rev: "window_reverse x3 (WInt (int ws)) (int (ws * h)) (int (ws * w)) = Inr x"
    unfolding window_reverse_def
    by (simp only: x3_def tensor.simps list.case wsize.case window_count_steps [OF pos(5) pos(2) pos(3)]
        and_then_def sum.case Let_def d)
      (simp only: x3_def [symmetric] v3 p2 v4 sum.case)
  show ?thesis
    by (simp only: part rev and_then_def sum.case)
qed


section \<open>C1: the windowing functions as a round trip\<close>

text \<open>
  Claim C1, as amended.  For a tensor \<open>x\<close> of shape \<open>(B, H, W, C)\<close> with every
  axis non-empty and an integer window size \<open>ws \<ge> 1\<close> that divides \<open>H\<close> and \<open>W\<close>,
  \<^verbatim>\<open>window_reverse(window_partition(x, ws), ws, H, W)\<close> returns \<open>x\<close> itself: the
  same shape and the same elements.
\<close>

theorem window_reverse_inverts_partition:
  assumes "well_formed x" and "shape x = [B, H, W, C]"
    and "0 < B" "0 < H" "0 < W" "0 < C" "0 < ws" "ws dvd H" "ws dvd W"
  shows "and_then (window_partition x (WInt (int ws)))
           (\<lambda>windows. window_reverse windows (WInt (int ws)) (int H) (int W)) = Inr x"
proof -
  from assms(8) obtain h where h: "H = ws * h" by (rule dvdE)
  from assms(9) obtain w where w: "W = ws * w" by (rule dvdE)
  from assms h w have "0 < h" "0 < w" by simp_all
  with assms show ?thesis
    unfolding h w by (intro roundtrip_core [where B = B and C = C]) simp_all
qed

text \<open>
  Witness for C1: a \<open>1 \<times> 2 \<times> 4 \<times> 1\<close> grid and windows of size 2 satisfy every
  hypothesis, and the round trip gives the grid back.
\<close>

theorem window_inverse_witness:
  "well_formed \<lparr>shape = [1, 2, 4, 1], data = [10, 11, 12, 13, 14, 15, 16, 17 :: int]\<rparr>
   \<and> (2 :: nat) dvd 2 \<and> (2 :: nat) dvd 4
   \<and> and_then (window_partition \<lparr>shape = [1, 2, 4, 1], data = [10, 11, 12, 13, 14, 15, 16, 17 :: int]\<rparr> (WInt 2))
           (\<lambda>windows. window_reverse windows (WInt 2) 2 4)
     = Inr \<lparr>shape = [1, 2, 4, 1], data = [10, 11, 12, 13, 14, 15, 16, 17 :: int]\<rparr>"
  using window_reverse_inverts_partition
    [of "\<lparr>shape = [1, 2, 4, 1], data = [10, 11, 12, 13, 14, 15, 16, 17 :: int]\<rparr>" 1 2 4 1 2]
  by (simp add: well_formed_def)

text \<open>
  Counterexample to C1 as stated (every tensor): an empty batch of shape
  \<open>(0, 2, 2, 1)\<close> is partitioned into zero windows, and \<^verbatim>\<open>window_reverse\<close> then asks
  \<^verbatim>\<open>view(0, 1, 1, 2, 2, -1)\<close> of a tensor without elements, which torch refuses
  because the inferred axis is ambiguous.
\<close>

theorem empty_batch_not_restored:
  "well_formed \<lparr>shape = [0, 2, 2, 1], data = ([] :: int list)\<rparr>
   \<and> and_then (window_partition \<lparr>shape = [0, 2, 2, 1], data = ([] :: int list)\<rparr> (WInt 2))
           (\<lambda>windows. window_reverse windows (WInt 2) 2 2) = Inl RuntimeError"
  by code_simp

section \<open>Sequencing of results\<close>

lemma isl_and_then: "(\<And>v. isl (f v)) \<Longrightarrow> isl (and_then m f)"
  by (cases m) (simp_all add: and_then_def)

lemma and_then_Inl: "and_then (Inl e) f = Inl e"
  by (simp add: and_then_def)

lemma window_partition_tuple: "isl (window_partition x (WTuple a b))"
  by (simp add: window_partition_def split: list.split)

lemma ws_item_int: "ws_item (WInt w) i = Inl TypeError"
  by (simp add: ws_item_def)

lemma isl_and_then_iff: "isl (and_then m f) \<longleftrightarrow> (\<forall>v. m = Inr v \<longrightarrow> isl (f v))"
  by (cases m) (simp_all add: and_then_def)

lemma window_partition_tuple_fails: "window_partition x (WTuple a b) \<noteq> Inr w"
  using window_partition_tuple [of x a b] by auto

section \<open>Local Attention never returns\<close>

lemma Attention_forward_isl: "isl (Attention_forward ops A x H W gt)"
proof (cases "a_window_size A")
  case (WInt w)
  show ?thesis
    unfolding Attention_forward_def WInt
    by (simp add: isl_and_then_iff ws_item_int split: prod.split)
next
  case (WTuple a b)
  show ?thesis
    unfolding Attention_forward_def WTuple
    by (simp add: isl_and_then_iff window_partition_tuple_fails Let_def split: prod.split)
qed


lemma Attention_attend_rank4:
  "length (shape xp) = 4 \<Longrightarrow> Attention_attend ops A xp gt xw = Inl ValueError"
  by (auto simp: Attention_attend_def unpack3_def and_then_def split: list.split)

lemma cat1_rank_mismatch:
  "length (shape g) = 3 \<Longrightarrow> length (shape xp) = 4 \<Longrightarrow> cat1 g xp = Inl RuntimeError"
  by (simp add: cat1_def)

lemma and_then_Inr_iff: "and_then m f = Inr r \<longleftrightarrow> (\<exists>v. m = Inr v \<and> f v = Inr r)"
  by (cases m) (simp_all add: and_then_def)


section \<open>C10: Local Attention raises on every input\<close>

text \<open>
  Claim C10.  \<^verbatim>\<open>Attention.forward\<close> raises on every input, whatever \<^verbatim>\<open>gt_num\<close> is:
  no call returns.  The first conjunct is that statement.  With the pair
  \<^verbatim>\<open>window_size\<close> that the class stores and indexes, the exception that is
  raised first is the \<^verbatim>\<open>TypeError\<close> of \<^verbatim>\<open>H // window_size\<close> inside
  \<^verbatim>\<open>window_partition\<close> (line 34).  The other two conjuncts are the two failures
  the claim names, which lie behind it: from line 186 on, a rank-4 padded grid
  fails the three-way unpacking of its shape, and concatenating rank-3 global
  tokens with a rank-4 grid is refused.
\<close>

theorem Attention_forward_always_raises:
  "isl (Attention_forward ops A x H W gt)
   \<and> (length (shape xp) = 4 \<longrightarrow> Attention_attend ops A xp gt xw = Inl ValueError)
   \<and> (length (shape g) = 3 \<and> length (shape xp) = 4 \<longrightarrow> cat1 g xp = Inl RuntimeError)"
  using Attention_forward_isl [of ops A x H W gt] Attention_attend_rank4 [of xp ops A gt xw]
    cat1_rank_mismatch [of g xp]
  by blast

text \<open>
  Witness for C10: a \<open>2 \<times> 2\<close> grid of one-channel tokens with one global token,
  its padded rank-4 grid, and the batched global token.
\<close>

theorem always_raises_witness:
  "isl (Attention_forward sample_ops (sample_attention 1)
          \<lparr>shape = [1, 4, 1], data = [1, 2, 3, 4]\<rparr> 2 2 \<lparr>shape = [1, 1], data = [9]\<rparr>)
   \<and> Attention_attend sample_ops (sample_attention 1)
          \<lparr>shape = [1, 2, 2, 1], data = [1, 2, 3, 4]\<rparr> \<lparr>shape = [1, 1], data = [9]\<rparr>
          \<lparr>shape = [1, 4, 1], data = [1, 2, 3, 4]\<rparr> = Inl ValueError
   \<and> cat1 \<lparr>shape = [1, 1, 1], data = [9 :: int]\<rparr> \<lparr>shape = [1, 2, 2, 1], data = [1, 2, 3, 4]\<rparr>
        = Inl RuntimeError"
  using Attention_forward_always_raises
    [of sample_ops "sample_attention 1" "\<lparr>shape = [1, 4, 1], data = [1, 2, 3, 4]\<rparr>" 2 2
        "\<lparr>shape = [1, 1], data = [9]\<rparr>" "\<lparr>shape = [1, 2, 2, 1], data = [1, 2, 3, 4]\<rparr>"
        "\<lparr>shape = [1, 4, 1], data = [1, 2, 3, 4]\<rparr>" "\<lparr>shape = [1, 1, 1], data = [9 :: int]\<rparr>"]
  by simp

section \<open>C2: the window partition inside Local Attention\<close>

lemma infer_size_length: "infer_size sizes n = Inr s \<Longrightarrow> length s = length sizes"
  by (auto simp: infer_size_def Let_def split: if_splits)

lemma view_rank: "view t sizes = Inr u \<Longrightarrow> length (shape u) = length sizes"
  by (auto simp: view_def and_then_Inr_iff dest: infer_size_length)

lemma pad_rank: "pad ops t r b = Inr u \<Longrightarrow> length (shape u) = length (shape t)"
  by (auto simp: pad_def Let_def split: if_splits)

lemma window_partition_tuple_rank4:
  "length (shape xp) = 4 \<Longrightarrow> window_partition xp (WTuple a b) = Inl TypeError"
  by (auto simp: window_partition_def split: list.split)

lemma unpack4_rank4:
  "length (shape xp) = 4 \<Longrightarrow> \<exists>p. unpack4 (shape xp) = Inr p"
  by (auto simp: unpack4_def split: list.split)

text \<open>
  Claim C2 (the code departs from it).  Take any call of \<^verbatim>\<open>Attention.forward\<close>
  that gets as far as the padded grid \<open>xp\<close> (lines 173-182), with the pair
  \<^verbatim>\<open>window_size\<close> the class indexes.  The window partition of line 184 is then not
  computed: \<^verbatim>\<open>window_partition\<close> raises \<^verbatim>\<open>TypeError\<close> on the pair, and that is the
  result of the whole call, so nothing flows into the concatenation or the
  projections.  Nor is the call without effect: lines 186-224 on the same
  padded grid, whatever stands in for the windows, end in the \<^verbatim>\<open>ValueError\<close> of
  line 187 instead.
\<close>

theorem Attention_forward_stops_at_partition:
  assumes ws: "a_window_size A = WTuple a b" and nz: "a \<noteq> 0" "b \<noteq> 0"
    and sh: "shape x = [B, N, C]"
    and v: "view x [int B, H, W, int C] = Inr x4"
    and p: "pad ops x4 ((b - W mod b) mod b) ((a - H mod a) mod a) = Inr xp"
  shows "window_partition xp (a_window_size A) = Inl TypeError
         \<and> Attention_forward ops A x H W gt = Inl TypeError
         \<and> Attention_attend ops A xp gt x_windows = Inl ValueError"
proof -
  have r4: "length (shape xp) = 4"
    using view_rank [OF v] pad_rank [OF p] by simp
  have wp: "window_partition xp (WTuple a b) = Inl TypeError"
    by (rule window_partition_tuple_rank4 [OF r4])
  obtain q where u4: "unpack4 (shape xp) = Inr q"
    using unpack4_rank4 [OF r4] by blast
  have p': "pad ops x4 (- (W mod b) mod b) (- (H mod a) mod a) = Inr xp"
    using p by simp
  have fwd: "Attention_forward ops A x H W gt = Inl TypeError"
    unfolding Attention_forward_def
    by (simp add: sh unpack3_def v ws ws_item_def py_mod_def nz p' u4 wp and_then_def Let_def
        split: prod.split)
  show ?thesis
    using wp fwd Attention_attend_rank4 [OF r4] by (simp add: ws)
qed

text \<open>
  Witness for C2: a \<open>2 \<times> 2\<close> grid of one-channel tokens, window size \<open>(2, 2)\<close>; the
  view of line 177 and the padding of line 181 succeed and leave the grid as
  it is.
\<close>

theorem stops_at_partition_witness:
  "window_partition \<lparr>shape = [1, 2, 2, 1], data = [1, 2, 3, 4 :: int]\<rparr> (a_window_size (sample_attention 1))
     = Inl TypeError
   \<and> Attention_forward sample_ops (sample_attention 1)
        \<lparr>shape = [1, 4, 1], data = [1, 2, 3, 4]\<rparr> 2 2 \<lparr>shape = [1, 1], data = [9]\<rparr> = Inl TypeError
   \<and> Attention_attend sample_ops (sample_attention 1)
        \<lparr>shape = [1, 2, 2, 1], data = [1, 2, 3, 4]\<rparr> \<lparr>shape = [1, 1], data = [9]\<rparr>
        \<lparr>shape = [4, 1, 1], data = [1, 2, 3, 4]\<rparr> = Inl ValueError"
proof -
  have ws: "a_window_size (sample_attention 1) = WTuple 2 2"
    by (simp add: sample_attention_def)
  have v: "view \<lparr>shape = [1, 4, 1], data = [1, 2, 3, 4 :: int]\<rparr> [int 1, 2, 2, int 1]
      = Inr \<lparr>shape = [1, 2, 2, 1], data = [1, 2, 3, 4]\<rparr>"
    by code_simp
  have p: "pad sample_ops \<lparr>shape = [1, 2, 2, 1], data = [1, 2, 3, 4]\<rparr>
        ((2 - 2 mod 2) mod 2) ((2 - 2 mod 2) mod 2)
      = Inr \<lparr>shape = [1, 2, 2, 1], data = [1, 2, 3, 4]\<rparr>"
    by code_simp
  show ?thesis
    by (rule Attention_forward_stops_at_partition [OF ws _ _ _ v p]) simp_all
qed

section \<open>C4 and C7: Local Attention on a concrete grid\<close>

text \<open>
  Claim C4 (the code departs from it).  On a \<open>2 \<times> 2\<close> grid of tokens with one
  global token and the window size \<open>(2, 2)\<close>, \<^verbatim>\<open>Attention.forward\<close> raises instead
  of returning tokens and global tokens of the promised shapes.
\<close>

theorem local_attention_raises_on_grid:
  "Attention_forward sample_ops (sample_attention 1)
     \<lparr>shape = [1, 4, 1], data = [1, 2, 3, 4]\<rparr> 2 2 \<lparr>shape = [1, 1], data = [9]\<rparr> = Inl TypeError"
  by code_simp

text \<open>
  Claim C7 (the code departs from it).  With \<^verbatim>\<open>gt_num = 0\<close> the same call raises
  as well, so there is no output to compare with plain self-attention; and
  from line 186 on the rank-4 padded grid fails the unpacking, with or without
  global tokens.
\<close>

theorem local_attention_raises_without_globals:
  "Attention_forward sample_ops (sample_attention 0)
     \<lparr>shape = [1, 4, 1], data = [1, 2, 3, 4]\<rparr> 2 2 \<lparr>shape = [1, 1], data = [9]\<rparr> = Inl TypeError
   \<and> Attention_attend sample_ops (sample_attention 0)
        \<lparr>shape = [1, 2, 2, 1], data = [1, 2, 3, 4]\<rparr> \<lparr>shape = [1, 1], data = [9]\<rparr>
        \<lparr>shape = [1, 4, 1], data = [1, 2, 3, 4]\<rparr> = Inl ValueError"
  by code_simp

section \<open>C3: the signature of \<^verbatim>\<open>Block.__init__\<close>\<close>

text \<open>
  Claim C3 (the code departs from it).  The parameter list of \<^verbatim>\<open>Block.__init__\<close>
  puts \<^verbatim>\<open>dim\<close> and \<^verbatim>\<open>num_heads\<close>, which have no default, after \<^verbatim>\<open>gt_num=1\<close>:
  the compiler rejects the definition, and with it the whole module.
\<close>

theorem Block_init_rejected:
  "check_signature Block_init_signature = Inl SyntaxError"
  by (simp add: Block_init_signature_def)

section \<open>C8: regrouping the global tokens\<close>

text \<open>
  Claim C8, as amended.  For global tokens of shape \<open>(b\<cdot>n, g, c)\<close> with \<open>g \<ge> 1\<close>
  and a window count \<open>n \<ge> 1\<close> that divides the first axis, regrouping per batch
  element (line 271) and back per window (line 275, with the \<open>g\<close> and \<open>c\<close> read
  from the shape on line 269) returns the same tensor.
\<close>

theorem rearrange_per_window_inverts_per_batch:
  assumes "shape gt = [bn, g, c]" "0 < n" "n dvd bn" "0 < g"
  shows "and_then (rearrange_per_batch gt n) (\<lambda>t. rearrange_per_window t g c) = Inr gt"
proof -
  from assms(3) obtain b where b: "bn = n * b" by (rule dvdE)
  have "rearrange_per_batch gt n = Inr \<lparr>shape = [b, n * g, c], data = data gt\<rparr>"
    using assms(1,2) b by (simp add: rearrange_per_batch_def)
  moreover have "rearrange_per_window \<lparr>shape = [b, n * g, c], data = data gt\<rparr> g c
      = Inr \<lparr>shape = [b * n, g, c], data = data gt\<rparr>"
    using assms(4) by (simp add: rearrange_per_window_def)
  moreover have "\<lparr>shape = [b * n, g, c], data = data gt\<rparr> = gt"
    using assms(1) b by (simp add: mult.commute)
  ultimately show ?thesis by (simp add: and_then_def)
qed


text \<open>Witness for C8: four windows' worth of two global tokens, two windows per batch element.\<close>

theorem regrouping_witness:
  "(2 :: nat) dvd 4
   \<and> and_then (rearrange_per_batch \<lparr>shape = [4, 2, 1], data = [0, 1, 2, 3, 4, 5, 6, 7 :: int]\<rparr> 2)
        (\<lambda>t. rearrange_per_window t 2 1)
      = Inr \<lparr>shape = [4, 2, 1], data = [0, 1, 2, 3, 4, 5, 6, 7 :: int]\<rparr>"
  using rearrange_per_window_inverts_per_batch
    [of "\<lparr>shape = [4, 2, 1], data = [0, 1, 2, 3, 4, 5, 6, 7 :: int]\<rparr>" 4 2 1 2]
  by simp

text \<open>
  Counterexample to C8 as stated (every global-token tensor): with no global
  tokens (\<open>g = 0\<close>) the way back divides the middle axis by zero.
\<close>

theorem empty_globals_not_regrouped:
  "and_then (rearrange_per_batch \<lparr>shape = [2, 0, 3], data = ([] :: int list)\<rparr> 1)
        (\<lambda>t. rearrange_per_window t 0 3)
      = Inl ZeroDivisionError"
  by code_simp

section \<open>C9: the encoder\<close>

lemma Block_forward_isl:
  assumes "b_attn blk = Attention_forward ops' A"
  shows "isl (Block_forward ops blk rhs x H W gt pe)"
proof -
  have "b_attn blk y H W gt \<noteq> Inr r" for y r
    using Attention_forward_isl [of ops' A y H W gt] assms by auto
  then show ?thesis
    unfolding Block_forward_def Let_def
    by (simp add: isl_and_then_iff split: prod.split)
qed

text \<open>
  Claim C9 (the code departs from it).  \<^verbatim>\<open>init_weights\<close> wraps an \<^verbatim>\<open>Attention\<close>
  into every block (line 233), and the first stage has a block; so \<^verbatim>\<open>forward\<close>
  raises on every image and returns no feature map.
\<close>

theorem forward_always_raises:
  assumes "block1 M = blk # blks" "b_attn blk = Attention_forward ops' A"
  shows "isl (forward ops M rhs x)"
proof -
  have "run_blocks ops rhs (block1 M) y H W g p \<noteq> Inr r" for y H W g p r
    using Block_forward_isl [OF assms(2), of ops rhs y H W g p] assms(1)
    by (cases "Block_forward ops blk rhs y H W g p") (auto simp: and_then_def)
  then have "isl (stage ops rhs e (block1 M) nl g p B y)" for e nl g p B y
    unfolding stage_def Let_def by (simp add: isl_and_then_iff split: prod.split)
  then have "stage ops rhs e (block1 M) nl g p B y \<noteq> Inr r" for e nl g p B y r
    by (metis sum.disc(2))
  then show ?thesis
    unfolding forward_def forward_features_def
    by (simp add: isl_and_then_iff split: list.split)
qed

text \<open>Witness for C9: a model of one block per stage around the module's \<^verbatim>\<open>Attention\<close>.\<close>

theorem forward_raises_witness:
  "block1 sample_model = [sample_block (Attention_forward sample_ops (sample_attention 1))]
   \<and> isl (forward sample_ops sample_model False \<lparr>shape = [1, 3, 8, 8], data = replicate 192 1\<rparr>)"
proof -
  have b: "block1 sample_model = [sample_block (Attention_forward sample_ops (sample_attention 1))]"
    by (simp add: sample_model_def Let_def)
  have a: "b_attn (sample_block (Attention_forward sample_ops (sample_attention 1)))
      = Attention_forward sample_ops (sample_attention 1)"
    by (simp add: sample_block_def)
  from b forward_always_raises [OF b a] show ?thesis by blast
qed

section \<open>C5: a block without the global-token sub-block\<close>

text \<open>
  Claim C5 (the code departs from it).  Line 233 stores the module's \<^verbatim>\<open>Attention\<close>
  in every block, and line 257 calls it before anything is done with the global
  tokens.  So \<^verbatim>\<open>Block.forward\<close> returns no pair of tensors at all, whichever way
  line 262 is completed and whether or not the block has the global-token
  sub-modules: there are no returned global tokens to compare with the received
  ones.
\<close>

theorem Block_forward_returns_no_globals:
  assumes "b_attn blk = Attention_forward ops' A"
  shows "Block_forward ops blk rhs x H W gt pe \<noteq> Inr (x', gt')"
  using Block_forward_isl [OF assms, of ops rhs x H W gt pe] by auto

text \<open>
  Witness for C5: a block built with \<^verbatim>\<open>do_gmsa=False\<close> around the module's
  \<^verbatim>\<open>Attention\<close> does not hand back the tokens and global tokens it received.
\<close>

theorem no_globals_witness:
  "b_gmsa (sample_block (Attention_forward sample_ops (sample_attention 1))) = None
   \<and> Block_forward sample_ops (sample_block (Attention_forward sample_ops (sample_attention 1))) False
        \<lparr>shape = [1, 4, 1], data = [1, 2, 3, 4]\<rparr> 2 2 \<lparr>shape = [1, 1], data = [9]\<rparr>
        \<lparr>shape = [1, 1], data = [0]\<rparr>
      \<noteq> Inr (\<lparr>shape = [1, 4, 1], data = [1, 2, 3, 4]\<rparr>, \<lparr>shape = [1, 1], data = [9]\<rparr>)"
proof -
  have "b_attn (sample_block (Attention_forward sample_ops (sample_attention 1)))
      = Attention_forward sample_ops (sample_attention 1)"
    by (simp add: sample_block_def)
  from Block_forward_returns_no_globals [OF this] show ?thesis
    by (simp add: sample_block_def)
qed

section \<open>C6: the positional slice of Global-Token Attention\<close>

lemma concat_map_offsets_from:
  "concat (map (\<lambda>i. map (\<lambda>k. (i + s) * P + k) [0..<P]) [0..<n]) = [s * P..<(s + n) * P]"
proof (induction n)
  case 0
  show ?case by simp
next
  case (Suc n)
  have "map (\<lambda>k. (n + s) * P + k) [0..<P] = [(s + n) * P..<(s + n) * P + P]"
    using map_add_upt [of "(s + n) * P" P] by (simp add: add.commute)
  moreover have "[s * P..<(s + n) * P] @ [(s + n) * P..<(s + n) * P + P] = [s * P..<(s + n) * P + P]"
    by (rule upt_add_eq_append [symmetric]) simp
  ultimately show ?case using Suc by (simp add: add.commute)
qed

lemma map_nth_range:
  assumes "a \<le> b" "b \<le> length xs"
  shows "map ((!) xs) [a..<b] = take (b - a) (drop a xs)"
proof -
  have "take (b - a) (drop a xs) = take (b - a) (drop a (map ((!) xs) [0..<length xs]))"
    by (simp only: map_nth)
  also have "\<dots> = map ((!) xs) (take (b - a) (drop a [0..<length xs]))"
    by (simp only: take_map drop_map)
  also have "take (b - a) (drop a [0..<length xs]) = [a..<b]"
    using assms by (simp add: take_upt)
  finally show ?thesis by simp
qed

lemma slice_axis_rows:
  assumes sh: "shape pe = L # rest" and wf: "well_formed pe" and fit: "lo + n \<le> L"
  shows "slice_axis pe 0 (Some (int lo)) (Some (int (lo + n))) = table_rows pe lo n"
proof -
  define P where "P = prod_list rest"
  have b1: "slice_bound L (int lo) = lo" and b2: "slice_bound L (int (lo + n)) = lo + n"
    using fit by (simp_all add: slice_bound_def)
  have len: "length (data pe) = L * P"
    using wf sh by (simp add: well_formed_def P_def)
  have "map (\<lambda>j. elem pe (j[0 := j ! 0 + lo])) (indices (n # rest))
      = concat (map (\<lambda>i. map (\<lambda>k. data pe ! ((i + lo) * P + k)) (map (flat_index rest) (indices rest))) [0..<n])"
    by (simp add: map_concat comp_def elem_def sh P_def)
  also have "\<dots> = map ((!) (data pe)) (concat (map (\<lambda>i. map (\<lambda>k. (i + lo) * P + k) [0..<P]) [0..<n]))"
    by (simp only: map_flat_index_indices P_def) (simp add: map_concat comp_def)
  also have "\<dots> = map ((!) (data pe)) [lo * P..<(lo + n) * P]"
    by (simp only: concat_map_offsets_from)
  also have "\<dots> = take ((lo + n) * P - lo * P) (drop (lo * P) (data pe))"
    using fit len by (intro map_nth_range) (simp_all add: mult_le_mono1)
  also have "(lo + n) * P - lo * P = n * P"
    by (simp add: add_mult_distrib)
  finally have "map (\<lambda>j. elem pe (j[0 := j ! 0 + lo])) (indices (n # rest))
      = take (n * P) (drop (lo * P) (data pe))" .
  then show ?thesis
    by (simp add: slice_axis_def table_rows_def sh b1 b2 Let_def P_def del: of_nat_add)
qed

lemma centered_start:
  assumes "N \<le> L"
  shows "int L div 2 - int N div 2 = int (L div 2 - N div 2)"
    and "int L div 2 - int N div 2 + int N = int (L div 2 - N div 2 + N)"
    and "L div 2 - N div 2 + N \<le> L"
  using assms by (simp_all add: div_le_mono zdiv_int)

lemma table_rows_all:
  assumes "shape pe = L # rest" "well_formed pe"
  shows "table_rows pe 0 L = pe"
  using assms by (simp add: table_rows_def well_formed_def)

text \<open>
  Claim C6, as amended.  For \<open>N\<close> tokens and a table of \<open>L \<ge> N\<close> rows,
  \<^verbatim>\<open>ClassicAttention.forward\<close> reads rows \<open>start, \<dots>, start + N - 1\<close> of the table
  with \<open>start = L div 2 - N div 2\<close>, adds them to the input, and computes the
  attention on the sum; the slice has \<open>N\<close> rows, and for \<open>N = L\<close> it is the table.
\<close>

theorem ClassicAttention_adds_centered_slice:
  assumes "shape x = [B', N, C]" and "shape pe = L # rest" and "rest \<noteq> []"
    and "well_formed pe" and "N \<le> L"
  shows "ClassicAttention_forward ops A x pe
           = and_then (add ops x (table_rows pe (L div 2 - N div 2) N))
               (ClassicAttention_attend ops A B' N C)
         \<and> shape (table_rows pe (L div 2 - N div 2) N) = N # rest
         \<and> (N = L \<longrightarrow> table_rows pe (L div 2 - N div 2) N = pe)"
proof -
  have rk: "\<not> length (shape pe) < 2" using assms(2,3) by (cases rest) simp_all
  have sl: "slice_rows pe (int L div 2 - int N div 2) (int L div 2 - int N div 2 + int N)
      = Inr (table_rows pe (L div 2 - N div 2) N)"
    unfolding slice_rows_def centered_start [OF assms(5)]
    using rk slice_axis_rows [OF assms(2) assms(4) centered_start(3) [OF assms(5)]] by simp
  have 1: "ClassicAttention_forward ops A x pe
           = and_then (add ops x (table_rows pe (L div 2 - N div 2) N))
               (ClassicAttention_attend ops A B' N C)"
    unfolding ClassicAttention_forward_def
    by (simp add: assms(1,2) unpack3_def sl and_then_def Let_def)
  have 2: "shape (table_rows pe (L div 2 - N div 2) N) = N # rest"
    by (simp add: table_rows_def assms(2) Let_def)
  have 3: "N = L \<longrightarrow> table_rows pe (L div 2 - N div 2) N = pe"
    using table_rows_all [OF assms(2) assms(4)] by simp
  from 1 2 3 show ?thesis by blast
qed

text \<open>
  Witness for C6: two tokens and a table of five rows give rows 1 and 2; two
  tokens and a table of two rows give the table.
\<close>

theorem centered_slice_witness:
  "ClassicAttention_forward sample_ops sample_classic
      \<lparr>shape = [1, 2, 2], data = [1, 2, 3, 4]\<rparr>
      \<lparr>shape = [5, 2], data = [0, 1, 2, 3, 4, 5, 6, 7, 8, 9]\<rparr>
    = and_then (add sample_ops \<lparr>shape = [1, 2, 2], data = [1, 2, 3, 4]\<rparr>
                  \<lparr>shape = [2, 2], data = [2, 3, 4, 5]\<rparr>)
        (ClassicAttention_attend sample_ops sample_classic 1 2 2)
   \<and> table_rows \<lparr>shape = [2, 1], data = [7, 8 :: int]\<rparr> (2 div 2 - 2 div 2) 2
      = \<lparr>shape = [2, 1], data = [7, 8]\<rparr>"
proof -
  have rows: "table_rows \<lparr>shape = [5, 2], data = [0, 1, 2, 3, 4, 5, 6, 7, 8, 9 :: int]\<rparr> (5 div 2 - 2 div 2) 2
      = \<lparr>shape = [2, 2], data = [2, 3, 4, 5]\<rparr>"
    by code_simp
  have wf5: "well_formed \<lparr>shape = [5, 2], data = [0, 1, 2, 3, 4, 5, 6, 7, 8, 9 :: int]\<rparr>"
    and wf2: "well_formed \<lparr>shape = [2, 1], data = [7, 8 :: int]\<rparr>"
    by (simp_all add: well_formed_def)
  have "ClassicAttention_forward sample_ops sample_classic
      \<lparr>shape = [1, 2, 2], data = [1, 2, 3, 4]\<rparr>
      \<lparr>shape = [5, 2], data = [0, 1, 2, 3, 4, 5, 6, 7, 8, 9]\<rparr>
    = and_then (add sample_ops \<lparr>shape = [1, 2, 2], data = [1, 2, 3, 4]\<rparr>
                  (table_rows \<lparr>shape = [5, 2], data = [0, 1, 2, 3, 4, 5, 6, 7, 8, 9]\<rparr> (5 div 2 - 2 div 2) 2))
        (ClassicAttention_attend sample_ops sample_classic 1 2 2)"
    using ClassicAttention_adds_centered_slice
      [of "\<lparr>shape = [1, 2, 2], data = [1, 2, 3, 4]\<rparr>" 1 2 2
          "\<lparr>shape = [5, 2], data = [0, 1, 2, 3, 4, 5, 6, 7, 8, 9]\<rparr>" 5 "[2]"
          sample_ops sample_classic] wf5
    by simp
  moreover have "table_rows \<lparr>shape = [2, 1], data = [7, 8 :: int]\<rparr> (2 div 2 - 2 div 2) 2
      = \<lparr>shape = [2, 1], data = [7, 8]\<rparr>"
    using ClassicAttention_adds_centered_slice
      [of "\<lparr>shape = [1, 2, 1], data = [1, 2]\<rparr>" 1 2 1
          "\<lparr>shape = [2, 1], data = [7, 8 :: int]\<rparr>" 2 "[1]"
          sample_ops sample_classic] wf2
    by simp
  ultimately show ?thesis
    by (simp only: rows)
qed

text \<open>
  Counterexample to C6 as stated (a slice of length \<open>N\<close> starting at
  \<open>L/2 - N/2\<close>, whatever \<open>N\<close> and \<open>L\<close>): for four tokens and a table of two rows
  the start is \<open>-1\<close>, Python's slice wraps and clamps it, and the slice is the
  last row alone, which is then added to every token.
\<close>

theorem short_table_slice:
  "slice_rows \<lparr>shape = [2, 1], data = [7, 8 :: int]\<rparr>
      (int 2 div 2 - int 4 div 2) (int 2 div 2 - int 4 div 2 + int 4)
    = Inr \<lparr>shape = [1, 1], data = [8]\<rparr>
   \<and> ClassicAttention_forward sample_ops sample_classic
        \<lparr>shape = [1, 4, 1], data = [1, 2, 3, 4]\<rparr> \<lparr>shape = [2, 1], data = [7, 8]\<rparr>
      = and_then (add sample_ops \<lparr>shape = [1, 4, 1], data = [1, 2, 3, 4]\<rparr>
                    \<lparr>shape = [1, 1], data = [8]\<rparr>)
          (ClassicAttention_attend sample_ops sample_classic 1 4 1)"
proof -
  have s: "slice_rows \<lparr>shape = [2, 1], data = [7, 8 :: int]\<rparr>
      (int 2 div 2 - int 4 div 2) (int 2 div 2 - int 4 div 2 + int 4)
    = Inr \<lparr>shape = [1, 1], data = [8]\<rparr>"
    by code_simp
  then show ?thesis
    by (simp add: ClassicAttention_forward_def unpack3_def and_then_def)
qed

end
